theory Spec2Isabelle
  imports Complex_Main "HOL-Library.Monad_Syntax"
begin

section \<open>Equation-of-state fitting: the two programs \<open>eos.py\<close> and \<open>eos_addition.py\<close>\<close>

text \<open>
  The repository holds two command-line programs. \<open>eos.py\<close> fits one pressure/volume
  column pair (the single-dataset variant), \<open>eos_addition.py\<close> fits a list of pairs (the
  multi-dataset variant). Both define \<open>birch_murnaghan\<close>, \<open>vinet\<close>, \<open>read_data\<close> and
  \<open>main\<close>. Definitions taken from \<open>eos.py\<close> keep the source's names; those of
  \<open>eos_addition.py\<close> carry the suffix \<open>_addition\<close>.

  Python floats are read as real numbers: rounding and overflow are not modelled. A value
  that is no real number (NaN, an infinity, a complex result, or a raised
  \<open>ZeroDivisionError\<close>) is \<open>None\<close>.
\<close>

subsection \<open>Arithmetic of the source\<close>

text \<open>
  \<open>a / b\<close> of Python 3 (true division, so \<open>3/2\<close> is one and a half). With \<open>b = 0\<close>
  plain floats raise \<open>ZeroDivisionError\<close> and numpy arrays yield an infinity or NaN.
\<close>

definition py_truediv :: "real \<Rightarrow> real \<Rightarrow> real option" where
  "py_truediv a b = (if b = 0 then None else Some (a / b))"

text \<open>
  \<open>x ** y\<close>. A zero base with a negative exponent divides by zero; a negative base with
  an exponent that is no integer gives a complex number (plain floats) or NaN (numpy).
\<close>

definition py_pow :: "real \<Rightarrow> real \<Rightarrow> real option" where
  "py_pow x y =
     (if x = 0 then (if y < 0 then None else if y = 0 then Some 1 else Some 0)
      else if x < 0 then (if y = of_int \<lfloor>y\<rfloor> then Some (x powi \<lfloor>y\<rfloor>) else None)
      else Some (x powr y))"

subsection \<open>Model functions\<close>

text \<open>\<open>eos.py\<close>, lines 9--13.\<close>

definition birch_murnaghan :: "real \<Rightarrow> real \<Rightarrow> real \<Rightarrow> real \<Rightarrow> real option" where
  "birch_murnaghan V V0 K0 K0_prime =
     do {
       r \<leftarrow> py_truediv V0 V;
       a \<leftarrow> py_pow r (7/3);
       b \<leftarrow> py_pow r (5/3);
       c \<leftarrow> py_pow r (2/3);
       Some ((3/2) * K0 * (a - b) * (1 + 3/4 * (K0_prime - 4) * (c - 1)))
     }"

text \<open>\<open>eos.py\<close>, lines 16--22; \<open>eos_addition.py\<close>, lines 18--24, has the same text.\<close>

definition vinet :: "real \<Rightarrow> real \<Rightarrow> real \<Rightarrow> real \<Rightarrow> real option" where
  "vinet V V0 K0 K0_prime =
     do {
       q \<leftarrow> py_truediv V V0;
       x \<leftarrow> py_pow q (1/3);
       let eta = 3/2 * (K0_prime - 1);
       Some (3 * K0 * (1 - x) * exp (eta * (1 - x)))
     }"

text \<open>
  \<open>eos_addition.py\<close>, lines 9--15: the parameter \<open>K0\<close> is overwritten by \<open>K0=160\<close>
  before the formula is evaluated.
\<close>

definition birch_murnaghan_addition :: "real \<Rightarrow> real \<Rightarrow> real \<Rightarrow> real \<Rightarrow> real option" where
  "birch_murnaghan_addition V V0 K0 K0_prime =
     (let K0 = 160 in
      do {
        r \<leftarrow> py_truediv V0 V;
        a \<leftarrow> py_pow r (7/3);
        b \<leftarrow> py_pow r (5/3);
        c \<leftarrow> py_pow r (2/3);
        Some ((3/2) * K0 * (a - b) * (1 + 3/4 * (K0_prime - 4) * (c - 1)))
      })"

definition vinet_addition :: "real \<Rightarrow> real \<Rightarrow> real \<Rightarrow> real \<Rightarrow> real option" where
  "vinet_addition V V0 K0 K0_prime =
     do {
       q \<leftarrow> py_truediv V V0;
       x \<leftarrow> py_pow q (1/3);
       let eta = 3/2 * (K0_prime - 1);
       Some (3 * K0 * (1 - x) * exp (eta * (1 - x)))
     }"

subsection \<open>The closed forms of the specification\<close>

text \<open>
  The formulas as the specification writes them, over the reals, with \<open>powr\<close> for the
  fractional powers. They are compared with the functions of the source below.
\<close>

definition bm_closed_form :: "real \<Rightarrow> real \<Rightarrow> real \<Rightarrow> real \<Rightarrow> real" where
  "bm_closed_form V V0 K0 K0_prime =
     (3/2) * K0 * ((V0/V) powr (7/3) - (V0/V) powr (5/3))
       * (1 + (3/4) * (K0_prime - 4) * ((V0/V) powr (2/3) - 1))"

definition vinet_closed_form :: "real \<Rightarrow> real \<Rightarrow> real \<Rightarrow> real \<Rightarrow> real" where
  "vinet_closed_form V V0 K0 K0_prime =
     (let x = (V/V0) powr (1/3); \<eta> = (3/2) * (K0_prime - 1)
      in 3 * K0 * (1 - x) * exp (\<eta> * (1 - x)))"

section \<open>The programs\<close>

subsection \<open>Tables, library calls and runs\<close>

text \<open>
  A spreadsheet cell is a number or missing; a missing cell is NaN after loading. A table
  (a pandas \<open>DataFrame\<close>) is its named columns in order.
\<close>

type_synonym cell = "real option"
type_synonym column = "cell list"
type_synonym table = "(string \<times> column) list"

text \<open>The parameters \<open>(V0, K0, K0_prime)\<close>: an initial guess or a fitted result.\<close>

type_synonym params = "cell \<times> cell \<times> cell"

datatype eos_model = BirchMurnaghan | Vinet

datatype py_exception = IndexError | TypeError | KeyError

text \<open>
  How a run ends: \<open>main\<close> returns, \<open>exit()\<close> is called, or an exception that no handler
  catches leaves \<open>main\<close>.
\<close>

datatype outcome = Completed | Exited | Uncaught py_exception

text \<open>
  The lines the programs print. For the fit messages the second field is the
  pressure and volume column named in the text; the messages of \<open>eos.py\<close> name none.
\<close>

datatype message =
    ReadError string
  | ColumnsError string string
  | LengthError
  | MissingWarning string string
  | FitReport eos_model "(string \<times> string) option" params
  | FitError eos_model "(string \<times> string) option" string

text \<open>
  What a run does to the outside, in order: \<open>pd.read_excel(filename, usecols=columns)\<close>,
  \<open>data.interpolate()\<close> with the table it is applied to, \<open>curve_fit(f, V, P, p0=..., maxfev=...)\<close>
  with the name of \<open>f\<close>, the arrays, the guess, the budget (\<open>None\<close> when \<open>maxfev\<close> is not
  passed) and what the call gave (\<open>Inl\<close> the text of the exception raised), \<open>print\<close>, the two
  \<open>plt.plot\<close> calls, \<open>plt.savefig\<close> with its \<open>dpi\<close>, and \<open>plt.show\<close>. Labels, colours and
  axis titles are left out.
\<close>

datatype event =
    ReadExcel string "string list"
  | Interpolate table
  | CurveFit eos_model column column params "nat option" "string + params"
  | Print message
  | PlotFit eos_model column params
  | PlotData column column
  | Savefig string "nat option"
  | Show

text \<open>
  The library functions the programs call are parameters of the model: any behaviour of
  pandas and scipy is covered. \<open>read_excel\<close> and \<open>curve_fit\<close> return \<open>Inl\<close> the text of the
  exception when they raise one. \<open>interpolate\<close> and the plotting calls are taken not to
  raise.
\<close>

record library =
  read_excel :: "string \<Rightarrow> string list \<Rightarrow> string + table"
  interpolate :: "table \<Rightarrow> table"
  curve_fit :: "(real \<Rightarrow> real \<Rightarrow> real \<Rightarrow> real \<Rightarrow> real option) \<Rightarrow> column \<Rightarrow> column
                  \<Rightarrow> params \<Rightarrow> nat option \<Rightarrow> string + params"

text \<open>The events \<open>evs\<close>, then the run \<open>r\<close>.\<close>

definition emit :: "event list \<Rightarrow> event list \<times> outcome \<Rightarrow> event list \<times> outcome" where
  "emit evs r = (evs @ fst r, snd r)"

text \<open>
  \<open>read_data\<close> (the same text in both files). \<open>None\<close>: the handler printed the error and
  called \<open>exit()\<close>.
\<close>

definition read_data :: "library \<Rightarrow> string \<Rightarrow> string list \<Rightarrow> event list \<times> table option" where
  "read_data lib fname cols =
     (case read_excel lib fname cols of
        Inr df \<Rightarrow> ([ReadExcel fname cols], Some df)
      | Inl e \<Rightarrow> ([ReadExcel fname cols, Print (ReadError e)], None))"

subsection \<open>\<open>eos.py\<close>: the single-dataset program\<close>

record args =
  filename :: string
  pressure_column :: string
  volume_column :: string
  output_file :: string

text \<open>
  \<open>main\<close>, lines 53--85: what follows the column check. \<open>data[c]\<close> raises \<open>KeyError\<close> for
  a column that is not there and \<open>V[0]\<close> raises \<open>IndexError\<close> on an empty array; neither is
  inside a \<open>try\<close>.
\<close>

definition main_fit :: "library \<Rightarrow> args \<Rightarrow> table \<Rightarrow> event list \<times> outcome" where
  "main_fit lib a data =
     (case map_of data (volume_column a) of
        None \<Rightarrow> ([], Uncaught KeyError)
      | Some V \<Rightarrow>
     (case map_of data (pressure_column a) of
        None \<Rightarrow> ([], Uncaught KeyError)
      | Some P \<Rightarrow>
     (case V of
        [] \<Rightarrow> ([], Uncaught IndexError)
      | v0 # _ \<Rightarrow>
          let initial_guess = (v0, Some 1, Some 1);
              r_bm = curve_fit lib birch_murnaghan V P initial_guess None
          in emit [CurveFit BirchMurnaghan V P initial_guess None r_bm]
           (case r_bm of
              Inl e \<Rightarrow> ([Print (FitError BirchMurnaghan None e)], Exited)
            | Inr popt_bm \<Rightarrow>
                let r_vinet = curve_fit lib vinet V P initial_guess None
                in emit [Print (FitReport BirchMurnaghan None popt_bm),
                         CurveFit Vinet V P initial_guess None r_vinet]
                 (case r_vinet of
                    Inl e \<Rightarrow> ([Print (FitError Vinet None e)], Exited)
                  | Inr popt_vinet \<Rightarrow>
                      ([Print (FitReport Vinet None popt_vinet),
                        PlotFit BirchMurnaghan V popt_bm,
                        PlotData P V,
                        Savefig (output_file a) None,
                        Show], Completed))))))"

text \<open>\<open>main\<close>, lines 37--51: loading and the column check.\<close>

definition main :: "library \<Rightarrow> args \<Rightarrow> event list \<times> outcome" where
  "main lib a =
     (case read_data lib (filename a) [pressure_column a, volume_column a] of
        (evs, None) \<Rightarrow> (evs, Exited)
      | (evs, Some data) \<Rightarrow>
          if \<not> {pressure_column a, volume_column a} \<subseteq> set (map fst data)
          then (evs @ [Print (ColumnsError (pressure_column a) (volume_column a))], Exited)
          else emit evs (main_fit lib a data))"

subsection \<open>\<open>eos_addition.py\<close>: the multi-dataset program\<close>

text \<open>
  \<open>--pressures\<close> and \<open>--volumes\<close> are options without a default: \<open>None\<close> when not given.
\<close>

record args_addition =
  figure_title :: string
  output_file_addition :: string
  filename_addition :: string
  pressures :: "string list option"
  volumes :: "string list option"
  colors :: "string list"

text \<open>
  A frame without rows. \<open>read_excel\<close> finds no value to infer a numeric type from, so the
  columns of such a frame, and the arrays \<open>np.array\<close> makes of them, have the dtype
  \<open>object\<close>; a frame with rows holds floats.
\<close>

definition zero_rows :: "table \<Rightarrow> bool" where
  "zero_rows data = list_all (\<lambda>nc. snd nc = []) data"

text \<open>
  \<open>np.isnan(A).any()\<close> for an array \<open>A\<close> taken from the frame \<open>data\<close>. On an array of
  dtype \<open>object\<close> \<open>np.isnan\<close> raises \<open>TypeError\<close>, also when the array is empty.
\<close>

definition np_isnan_any :: "table \<Rightarrow> column \<Rightarrow> py_exception + bool" where
  "np_isnan_any data A = (if zero_rows data then Inl TypeError else Inr (None \<in> set A))"

text \<open>
  The body of the \<open>for\<close> loop, lines 61--110, at index \<open>i\<close>. \<open>Some\<close> ends the run;
  \<open>None\<close> goes on to the next index (after \<open>continue\<close>, or at the end of the body).
  In line 70 \<open>or\<close> evaluates \<open>np.isnan(V)\<close> only when \<open>np.isnan(P).any()\<close> is false; the
  test is outside every \<open>try\<close>.
\<close>

definition main_addition_body ::
  "library \<Rightarrow> args_addition \<Rightarrow> string list \<Rightarrow> string list \<Rightarrow> table \<Rightarrow> nat
     \<Rightarrow> event list \<times> outcome option" where
  "main_addition_body lib a ps vs data i =
     (if \<not> (i < length ps \<and> i < length vs) then ([], Some (Uncaught IndexError))
      else if \<not> {ps ! i, vs ! i} \<subseteq> set (map fst data)
      then ([Print (ColumnsError (ps ! i) (vs ! i))], Some Exited)
      else
     (case map_of data (ps ! i) of
        None \<Rightarrow> ([], Some (Uncaught KeyError))
      | Some P \<Rightarrow>
     (case map_of data (vs ! i) of
        None \<Rightarrow> ([], Some (Uncaught KeyError))
      | Some V \<Rightarrow>
     (case np_isnan_any data P of
        Inl exn \<Rightarrow> ([], Some (Uncaught exn))
      | Inr nan_P \<Rightarrow>
     (case (if nan_P then Inr True else np_isnan_any data V) of
        Inl exn \<Rightarrow> ([], Some (Uncaught exn))
      | Inr missing \<Rightarrow>
          if missing
          then ([Print (MissingWarning (ps ! i) (vs ! i))], None)
          else
         (case V of
            [] \<Rightarrow> ([], Some (Uncaught IndexError))
          | v0 # _ \<Rightarrow>
              let initial_guess = (v0, Some 160, Some 5);
                  r_bm = curve_fit lib birch_murnaghan_addition V P initial_guess (Some 5000)
              in
             (case r_bm of
                Inl e \<Rightarrow>
                  ([CurveFit BirchMurnaghan V P initial_guess (Some 5000) r_bm,
                    Print (FitError BirchMurnaghan (Some (ps ! i, vs ! i)) e)], Some Exited)
              | Inr popt_bm \<Rightarrow>
                  let r_vinet = curve_fit lib vinet_addition V P initial_guess None
                  in
                 (case r_vinet of
                    Inl e \<Rightarrow>
                      ([CurveFit BirchMurnaghan V P initial_guess (Some 5000) r_bm,
                        Print (FitReport BirchMurnaghan (Some (ps ! i, vs ! i)) popt_bm),
                        CurveFit Vinet V P initial_guess None r_vinet,
                        Print (FitError Vinet (Some (ps ! i, vs ! i)) e)], Some Exited)
                  | Inr popt_vinet \<Rightarrow>
                      ([CurveFit BirchMurnaghan V P initial_guess (Some 5000) r_bm,
                        Print (FitReport BirchMurnaghan (Some (ps ! i, vs ! i)) popt_bm),
                        CurveFit Vinet V P initial_guess None r_vinet,
                        Print (FitReport Vinet (Some (ps ! i, vs ! i)) popt_vinet),
                        PlotFit BirchMurnaghan V popt_bm,
                        PlotData P V,
                        Savefig (output_file_addition a) (Some 800)], None)))))))))"

text \<open>The loop over \<open>range(len(args.pressures))\<close>: the indices still to do.\<close>

fun main_addition_loop ::
  "library \<Rightarrow> args_addition \<Rightarrow> string list \<Rightarrow> string list \<Rightarrow> table \<Rightarrow> nat list
     \<Rightarrow> event list \<times> outcome" where
  "main_addition_loop lib a ps vs data [] = ([], Completed)"
| "main_addition_loop lib a ps vs data (i # idxs) =
     (case main_addition_body lib a ps vs data i of
        (evs, Some out) \<Rightarrow> (evs, out)
      | (evs, None) \<Rightarrow> emit evs (main_addition_loop lib a ps vs data idxs))"

text \<open>
  \<open>main\<close>, lines 39--57. \<open>len(None)\<close> raises \<open>TypeError\<close> when an option is not given.
\<close>

definition main_addition :: "library \<Rightarrow> args_addition \<Rightarrow> event list \<times> outcome" where
  "main_addition lib a =
     (case pressures a of
        None \<Rightarrow> ([], Uncaught TypeError)
      | Some ps \<Rightarrow>
     (case volumes a of
        None \<Rightarrow> ([], Uncaught TypeError)
      | Some vs \<Rightarrow>
          if length ps \<noteq> length vs then ([Print LengthError], Exited)
          else
         (case read_data lib (filename_addition a) (ps @ vs) of
            (evs, None) \<Rightarrow> (evs, Exited)
          | (evs, Some data) \<Rightarrow>
              emit (evs @ [Interpolate data])
                (main_addition_loop lib a ps vs (interpolate lib data) [0..<length ps]))))"

subsection \<open>A sample library and sample inputs\<close>

text \<open>
  Concrete library functions, to run the programs on concrete inputs. They stand in for
  pandas and scipy on these inputs only; the general theorems hold for every library.

  \<open>pandas_read_excel\<close>: the sheet stored under the file name, restricted to \<open>usecols\<close>;
  an exception when the file cannot be read or a requested column is not in the sheet.
\<close>

definition pandas_read_excel :: "(string \<Rightarrow> table option) \<Rightarrow> string \<Rightarrow> string list \<Rightarrow> string + table" where
  "pandas_read_excel files fname cols =
     (case files fname of
        None \<Rightarrow> Inl ''No such file or directory''
      | Some sheet \<Rightarrow>
          if set cols \<subseteq> set (map fst sheet)
          then Inr (filter (\<lambda>nc. fst nc \<in> set cols) sheet)
          else Inl ''Usecols do not match columns'')"

text \<open>
  \<open>pandas_interpolate\<close>: linear interpolation down each column, the default of
  \<open>DataFrame.interpolate\<close>. Missing cells between two numbers are filled at equal steps,
  missing cells after the last number repeat it, missing cells before the first number
  stay missing.
\<close>

fun next_valid :: "column \<Rightarrow> (nat \<times> real) option" where
  "next_valid [] = None"
| "next_valid (Some b # cs) = Some (0, b)"
| "next_valid (None # cs) = map_option (\<lambda>kb. (Suc (fst kb), snd kb)) (next_valid cs)"

fun interpolate_from :: "real \<Rightarrow> column \<Rightarrow> column" where
  "interpolate_from prev [] = []"
| "interpolate_from prev (Some b # cs) = Some b # interpolate_from b cs"
| "interpolate_from prev (None # cs) =
     (case next_valid cs of
        None \<Rightarrow> Some prev # interpolate_from prev cs
      | Some (k, b) \<Rightarrow>
          (let v = prev + (b - prev) / (real k + 2) in Some v # interpolate_from v cs))"

fun interpolate_column :: "column \<Rightarrow> column" where
  "interpolate_column [] = []"
| "interpolate_column (None # cs) = None # interpolate_column cs"
| "interpolate_column (Some b # cs) = Some b # interpolate_from b cs"

definition pandas_interpolate :: "table \<Rightarrow> table" where
  "pandas_interpolate data = map (\<lambda>nc. (fst nc, interpolate_column (snd nc))) data"

text \<open>
  \<open>stub_curve_fit hard\<close>: a fitting engine that rejects arrays with missing values (as
  \<open>check_finite\<close> does), does not converge on the volume arrays listed in \<open>hard\<close>, and
  otherwise returns the initial guess.
\<close>

definition stub_curve_fit ::
  "column list \<Rightarrow> (real \<Rightarrow> real \<Rightarrow> real \<Rightarrow> real \<Rightarrow> real option) \<Rightarrow> column \<Rightarrow> column
     \<Rightarrow> params \<Rightarrow> nat option \<Rightarrow> string + params" where
  "stub_curve_fit hard f V P p0 maxfev =
     (if None \<in> set V \<or> None \<in> set P then Inl ''array must not contain infs or NaNs''
      else if V \<in> set hard then Inl ''Optimal parameters not found''
      else Inr p0)"

text \<open>
  The sheet of \<open>data.xlsx\<close>: the table of the specification's scenario (\<open>P\<close>, \<open>V\<close>), a pair
  with missing cells (\<open>P2\<close>, \<open>V2\<close>) and a third pair (\<open>P3\<close>, \<open>V3\<close>). \<open>empty.xlsx\<close> has the
  header row only.
\<close>

definition demo_P :: column where
  "demo_P = [Some 0, Some 5, Some 10, Some 20]"

definition demo_V :: column where
  "demo_V = [Some 10, Some (98/10), Some (96/10), Some (92/10)]"

definition demo_P2 :: column where
  "demo_P2 = [Some 0, None, Some 10, Some 20]"

definition demo_V2 :: column where
  "demo_V2 = [None, Some 9, Some 8, Some 7]"

definition demo_P3 :: column where
  "demo_P3 = [Some 0, Some 1, Some 2, Some 3]"

definition demo_V3 :: column where
  "demo_V3 = [Some 6, Some 5, Some 4, Some 3]"

definition demo_sheet :: table where
  "demo_sheet =
     [(''P'', demo_P), (''V'', demo_V), (''P2'', demo_P2), (''V2'', demo_V2),
      (''P3'', demo_P3), (''V3'', demo_V3)]"

definition empty_sheet :: table where
  "empty_sheet = [(''P'', []), (''V'', [])]"

definition demo_files :: "string \<Rightarrow> table option" where
  "demo_files fname =
     (if fname = ''data.xlsx'' then Some demo_sheet
      else if fname = ''empty.xlsx'' then Some empty_sheet
      else None)"

definition demo_library :: "column list \<Rightarrow> library" where
  "demo_library hard =
     \<lparr>read_excel = pandas_read_excel demo_files,
      interpolate = pandas_interpolate,
      curve_fit = stub_curve_fit hard\<rparr>"

definition demo_args :: "string \<Rightarrow> string \<Rightarrow> string \<Rightarrow> args" where
  "demo_args fname p v =
     \<lparr>filename = fname, pressure_column = p, volume_column = v, output_file = ''fit.png''\<rparr>"

definition demo_args_addition :: "string \<Rightarrow> string list option \<Rightarrow> string list option \<Rightarrow> args_addition" where
  "demo_args_addition fname ps vs =
     \<lparr>figure_title = ''EOS'', output_file_addition = ''fit.png'', filename_addition = fname,
      pressures = ps, volumes = vs, colors = [''mediumblue'', ''red'', ''green'', ''purple'']\<rparr>"

section \<open>Properties of the model functions\<close>

lemma py_truediv_pos: "0 < b \<Longrightarrow> py_truediv a b = Some (a / b)"
  by (simp add: py_truediv_def)

lemma py_pow_pos: "0 < x \<Longrightarrow> py_pow x y = Some (x powr y)"
  by (simp add: py_pow_def)

lemma birch_murnaghan_pos:
  assumes "0 < V" and "0 < V0"
  shows "birch_murnaghan V V0 K0 K0_prime = Some (bm_closed_form V V0 K0 K0_prime)"
proof -
  from assms have r: "0 < V0 / V" by simp
  show ?thesis
    using assms(1) r
    by (simp add: birch_murnaghan_def bm_closed_form_def py_truediv_pos py_pow_pos)
qed

lemma vinet_pos:
  assumes "0 < V" and "0 < V0"
  shows "vinet V V0 K0 K0_prime = Some (vinet_closed_form V V0 K0 K0_prime)"
proof -
  from assms have q: "0 < V / V0" by simp
  show ?thesis
    using assms(2) q
    by (simp add: vinet_def vinet_closed_form_def py_truediv_pos py_pow_pos Let_def)
qed

lemma birch_murnaghan_addition_pinned:
  "birch_murnaghan_addition V V0 K0 K0_prime = birch_murnaghan V V0 160 K0_prime"
  by (simp only: birch_murnaghan_addition_def birch_murnaghan_def Let_def)

lemma vinet_addition_eq: "vinet_addition = vinet"
  by (simp add: fun_eq_iff vinet_addition_def vinet_def)

text \<open>
  Claim C4. For all \<open>V > 0\<close>, \<open>V0 > 0\<close> and all \<open>K0\<close>, \<open>K0_prime\<close> the model functions of
  \<open>eos.py\<close> return the closed forms of the specification, evaluated at the parameters
  passed in: the Birch-Murnaghan form for \<open>birch_murnaghan\<close> and the Vinet form, with
  \<open>x = (V/V0)^(1/3)\<close> and \<open>\<eta> = (3/2)(K0_prime - 1)\<close>, for \<open>vinet\<close>.
\<close>

theorem model_functions_closed_form:
  assumes "0 < V" and "0 < V0"
  shows "birch_murnaghan V V0 K0 K0_prime =
           Some ((3/2) * K0 * ((V0/V) powr (7/3) - (V0/V) powr (5/3))
                   * (1 + (3/4) * (K0_prime - 4) * ((V0/V) powr (2/3) - 1)))
       \<and> vinet V V0 K0 K0_prime =
           Some (3 * K0 * (1 - (V/V0) powr (1/3))
                   * exp ((3/2) * (K0_prime - 1) * (1 - (V/V0) powr (1/3))))
       \<and> birch_murnaghan V V0 K0 K0_prime = Some (bm_closed_form V V0 K0 K0_prime)
       \<and> vinet V V0 K0 K0_prime = Some (vinet_closed_form V V0 K0 K0_prime)"
  using birch_murnaghan_pos [OF assms, of K0 K0_prime] vinet_pos [OF assms, of K0 K0_prime]
  by (simp add: bm_closed_form_def vinet_closed_form_def Let_def)

theorem model_functions_closed_form_witness:
  "(0::real) < 8 \<and> (0::real) < 27
   \<and> birch_murnaghan 8 27 100 5 = Some (bm_closed_form 8 27 100 5)
   \<and> vinet 8 27 100 5 = Some (vinet_closed_form 8 27 100 5)"
proof -
  have pos: "(0::real) < 8" "(0::real) < 27" by simp_all
  from model_functions_closed_form [OF pos, of 100 5] pos show ?thesis by blast
qed

text \<open>
  Claim C3. For every \<open>V0 > 0\<close> and all \<open>K0\<close>, \<open>K0_prime\<close>, each model function
  evaluated at the reference volume gives zero pressure: \<open>birch_murnaghan\<close> and \<open>vinet\<close> of
  \<open>eos.py\<close>, and those of \<open>eos_addition.py\<close> as well.
\<close>

theorem zero_pressure_at_reference_volume:
  assumes "0 < V0"
  shows "birch_murnaghan V0 V0 K0 K0_prime = Some 0
       \<and> vinet V0 V0 K0 K0_prime = Some 0
       \<and> birch_murnaghan_addition V0 V0 K0 K0_prime = Some 0
       \<and> vinet_addition V0 V0 K0 K0_prime = Some 0"
proof -
  from assms have ratio: "py_truediv V0 V0 = Some 1"
    by (simp add: py_truediv_def)
  have one: "py_pow 1 y = Some 1" for y
    by (simp add: py_pow_def)
  have bm: "birch_murnaghan V0 V0 k K0_prime = Some 0" for k
    by (simp add: birch_murnaghan_def ratio one)
  have vi: "vinet V0 V0 K0 K0_prime = Some 0"
    by (simp add: vinet_def ratio one)
  from bm [of K0] bm [of 160] vi show ?thesis
    by (simp add: birch_murnaghan_addition_pinned vinet_addition_eq)
qed

theorem zero_pressure_at_reference_volume_witness:
  "(0::real) < 10 \<and> birch_murnaghan 10 10 160 5 = Some 0 \<and> vinet 10 10 160 5 = Some 0"
  using zero_pressure_at_reference_volume [of 10 160 5] by simp

text \<open>
  Claim C1. In the multi-dataset variant \<open>birch_murnaghan\<close> ignores its \<open>K0\<close> argument:
  for all \<open>V\<close>, \<open>V0\<close>, \<open>K0_prime\<close> any two \<open>K0\<close> arguments give the same result, which is
  the result of the unpinned function of \<open>eos.py\<close> at \<open>K0 = 160\<close>, and for positive
  volumes the closed form of the specification at \<open>K0 = 160\<close>.
\<close>

theorem birch_murnaghan_addition_pins_K0:
  "birch_murnaghan_addition V V0 K0 K0_prime = birch_murnaghan_addition V V0 K0' K0_prime
   \<and> birch_murnaghan_addition V V0 K0 K0_prime = birch_murnaghan V V0 160 K0_prime
   \<and> (0 < V \<and> 0 < V0 \<longrightarrow>
        birch_murnaghan_addition V V0 K0 K0_prime = Some (bm_closed_form V V0 160 K0_prime))"
proof (intro conjI impI)
  show "birch_murnaghan_addition V V0 K0 K0_prime = birch_murnaghan_addition V V0 K0' K0_prime"
    by (simp only: birch_murnaghan_addition_pinned)
  show "birch_murnaghan_addition V V0 K0 K0_prime = birch_murnaghan V V0 160 K0_prime"
    by (rule birch_murnaghan_addition_pinned)
  assume "0 < V \<and> 0 < V0"
  then have "birch_murnaghan V V0 160 K0_prime = Some (bm_closed_form V V0 160 K0_prime)"
    by (simp add: birch_murnaghan_pos)
  then show "birch_murnaghan_addition V V0 K0 K0_prime = Some (bm_closed_form V V0 160 K0_prime)"
    by (simp only: birch_murnaghan_addition_pinned)
qed

theorem birch_murnaghan_addition_pins_K0_witness:
  "birch_murnaghan_addition 8 27 1 5 = birch_murnaghan_addition 8 27 2 5
   \<and> birch_murnaghan_addition 8 27 1 5 = birch_murnaghan 8 27 160 5
   \<and> ((0::real) < 8 \<and> (0::real) < 27)
   \<and> birch_murnaghan_addition 8 27 1 5 = Some (bm_closed_form 8 27 160 5)"
proof -
  have pos: "(0::real) < 8 \<and> (0::real) < 27" by simp
  from birch_murnaghan_addition_pins_K0 [of 8 27 1 5 2] pos show ?thesis by blast
qed

section \<open>Properties of the programs\<close>

subsection \<open>Runs and their events\<close>

lemma fst_emit: "fst (emit evs r) = evs @ fst r"
  by (simp add: emit_def)

lemma snd_emit: "snd (emit evs r) = snd r"
  by (simp add: emit_def)

lemma split_after:
  assumes "xs @ ys = pre @ e # post" and "e \<notin> set xs"
  shows "\<exists>pre'. pre = xs @ pre' \<and> ys = pre' @ e # post"
  using assms
  by (induction xs arbitrary: pre) (auto simp: Cons_eq_append_conv)

lemma map_of_Some_in_names: "map_of data k = Some c \<Longrightarrow> k \<in> set (map fst data)"
  by (metis map_of_eq_None_iff option.distinct(1) set_map)

text \<open>In a frame without rows every column is empty; a frame with a non-empty column has rows.\<close>

lemma zero_rows_column:
  assumes "zero_rows data" and "map_of data k = Some c"
  shows "c = []"
proof -
  from assms(2) have "(k, c) \<in> set data" by (rule map_of_SomeD)
  with assms(1) show ?thesis by (auto simp: zero_rows_def list_all_iff)
qed

lemma np_isnan_any_zero_rows: "zero_rows data \<Longrightarrow> np_isnan_any data A = Inl TypeError"
  by (simp add: np_isnan_any_def)

lemma np_isnan_any_rows:
  assumes "map_of data k = Some c" and "c \<noteq> []"
  shows "np_isnan_any data A = Inr (None \<in> set A)"
  using assms zero_rows_column [of data k c] by (auto simp: np_isnan_any_def)

text \<open>Once the table is loaded and has both columns, \<open>eos.py\<close> goes on to the fits.\<close>

lemma main_loaded:
  assumes "read_excel lib (filename a) [pressure_column a, volume_column a] = Inr data"
      and "{pressure_column a, volume_column a} \<subseteq> set (map fst data)"
  shows "main lib a =
           emit [ReadExcel (filename a) [pressure_column a, volume_column a]] (main_fit lib a data)"
  using assms by (simp add: main_def read_data_def)

text \<open>The shapes a run of \<open>eos.py\<close> can have.\<close>

lemma main_events:
  "(\<exists>e. fst (main lib a) =
          [ReadExcel (filename a) [pressure_column a, volume_column a], Print (ReadError e)])
   \<or> fst (main lib a) =
        [ReadExcel (filename a) [pressure_column a, volume_column a],
         Print (ColumnsError (pressure_column a) (volume_column a))]
   \<or> (\<exists>data. fst (main lib a) =
          ReadExcel (filename a) [pressure_column a, volume_column a] # fst (main_fit lib a data))"
  by (auto simp: main_def read_data_def emit_def split: sum.splits if_splits)

text \<open>Once the table is loaded, \<open>eos_addition.py\<close> interpolates it and enters the loop.\<close>

lemma main_addition_loaded:
  assumes "pressures a = Some ps" and "volumes a = Some vs" and "length ps = length vs"
      and "read_excel lib (filename_addition a) (ps @ vs) = Inr data"
  shows "main_addition lib a =
           emit [ReadExcel (filename_addition a) (ps @ vs), Interpolate data]
             (main_addition_loop lib a ps vs (interpolate lib data) [0..<length ps])"
  using assms by (simp add: main_addition_def read_data_def)

lemma main_addition_events:
  "fst (main_addition lib a) = [] \<or> fst (main_addition lib a) = [Print LengthError]
   \<or> (\<exists>ps vs e. fst (main_addition lib a) =
          [ReadExcel (filename_addition a) (ps @ vs), Print (ReadError e)])
   \<or> (\<exists>ps vs data. pressures a = Some ps \<and> volumes a = Some vs \<and>
          fst (main_addition lib a) =
            ReadExcel (filename_addition a) (ps @ vs) # Interpolate data #
              fst (main_addition_loop lib a ps vs (interpolate lib data) [0..<length ps]))"
  by (auto simp: main_addition_def read_data_def emit_def split: sum.splits if_splits option.splits)

subsection \<open>The fitting calls a run makes\<close>

lemma main_fit_fits:
  assumes "CurveFit m V P p0 mf r \<in> set (fst (main_fit lib a data))"
  shows "V \<noteq> [] \<and> p0 = (hd V, Some 1, Some 1) \<and> mf = None
         \<and> r = curve_fit lib (case m of BirchMurnaghan \<Rightarrow> birch_murnaghan | Vinet \<Rightarrow> vinet) V P p0 mf
         \<and> map_of data (volume_column a) = Some V \<and> map_of data (pressure_column a) = Some P"
  using assms
  by (auto simp: main_fit_def emit_def Let_def split: option.splits list.splits sum.splits)

lemma main_fits:
  assumes "CurveFit m V P p0 mf r \<in> set (fst (main lib a))"
  shows "V \<noteq> [] \<and> p0 = (hd V, Some 1, Some 1) \<and> mf = None
         \<and> r = curve_fit lib (case m of BirchMurnaghan \<Rightarrow> birch_murnaghan | Vinet \<Rightarrow> vinet) V P p0 mf"
  using main_events [of lib a] assms main_fit_fits [of m V P p0 mf r lib a]
  by auto

lemma body_fits:
  assumes "CurveFit m V P p0 mf r \<in> set (fst (main_addition_body lib a ps vs data i))"
  shows "V \<noteq> [] \<and> p0 = (hd V, Some 160, Some 5)
         \<and> mf = (case m of BirchMurnaghan \<Rightarrow> Some 5000 | Vinet \<Rightarrow> None)
         \<and> r = curve_fit lib
                 (case m of BirchMurnaghan \<Rightarrow> birch_murnaghan_addition | Vinet \<Rightarrow> vinet_addition)
                 V P p0 mf
         \<and> None \<notin> set V \<and> None \<notin> set P
         \<and> map_of data (vs ! i) = Some V \<and> map_of data (ps ! i) = Some P"
  using assms
  by (auto simp: main_addition_body_def np_isnan_any_def Let_def
           split: option.splits list.splits sum.splits if_splits)

lemma loop_fits:
  assumes "CurveFit m V P p0 mf r \<in> set (fst (main_addition_loop lib a ps vs data idxs))"
  shows "\<exists>i \<in> set idxs. V \<noteq> [] \<and> p0 = (hd V, Some 160, Some 5)
         \<and> mf = (case m of BirchMurnaghan \<Rightarrow> Some 5000 | Vinet \<Rightarrow> None)
         \<and> r = curve_fit lib
                 (case m of BirchMurnaghan \<Rightarrow> birch_murnaghan_addition | Vinet \<Rightarrow> vinet_addition)
                 V P p0 mf
         \<and> None \<notin> set V \<and> None \<notin> set P
         \<and> map_of data (vs ! i) = Some V \<and> map_of data (ps ! i) = Some P"
  using assms
proof (induction idxs)
  case Nil
  then show ?case by simp
next
  case (Cons i idxs)
  obtain evs out where b: "main_addition_body lib a ps vs data i = (evs, out)"
    by (cases "main_addition_body lib a ps vs data i")
  from Cons.prems b
  have "CurveFit m V P p0 mf r \<in> set (fst (main_addition_body lib a ps vs data i))
        \<or> CurveFit m V P p0 mf r \<in> set (fst (main_addition_loop lib a ps vs data idxs))"
    by (cases out) (auto simp: fst_emit)
  then show ?case
  proof
    assume "CurveFit m V P p0 mf r \<in> set (fst (main_addition_body lib a ps vs data i))"
    from body_fits [OF this] show ?thesis by simp
  next
    assume "CurveFit m V P p0 mf r \<in> set (fst (main_addition_loop lib a ps vs data idxs))"
    from Cons.IH [OF this] show ?thesis by auto
  qed
qed

lemma main_addition_fits:
  assumes "CurveFit m V P p0 mf r \<in> set (fst (main_addition lib a))"
  shows "V \<noteq> [] \<and> p0 = (hd V, Some 160, Some 5)
         \<and> mf = (case m of BirchMurnaghan \<Rightarrow> Some 5000 | Vinet \<Rightarrow> None)
         \<and> r = curve_fit lib
                 (case m of BirchMurnaghan \<Rightarrow> birch_murnaghan_addition | Vinet \<Rightarrow> vinet_addition)
                 V P p0 mf"
  using main_addition_events [of lib a] assms loop_fits [of m V P p0 mf r lib a]
  by fastforce

lemma main_fit_first_call:
  assumes "map_of data (pressure_column a) = Some P"
      and "map_of data (volume_column a) = Some (v0 # Vr)"
  shows "\<exists>rest. fst (main_fit lib a data) =
           CurveFit BirchMurnaghan (v0 # Vr) P (v0, Some 1, Some 1) None
             (curve_fit lib birch_murnaghan (v0 # Vr) P (v0, Some 1, Some 1) None) # rest"
  using assms by (simp add: main_fit_def Let_def emit_def)

lemma body_first_call:
  assumes "i < length ps" and "i < length vs"
      and "map_of data (ps ! i) = Some P" and "map_of data (vs ! i) = Some (v0 # Vr)"
      and "None \<notin> set P" and "None \<notin> set (v0 # Vr)"
  shows "\<exists>rest. fst (main_addition_body lib a ps vs data i) =
           CurveFit BirchMurnaghan (v0 # Vr) P (v0, Some 160, Some 5) (Some 5000)
             (curve_fit lib birch_murnaghan_addition (v0 # Vr) P (v0, Some 160, Some 5) (Some 5000))
           # rest"
proof -
  from np_isnan_any_rows [OF assms(4)]
  have nan: "np_isnan_any data P = Inr False" "np_isnan_any data (v0 # Vr) = Inr False"
    using assms(5,6) by simp_all
  from assms(1-4) nan map_of_Some_in_names [OF assms(3)] map_of_Some_in_names [OF assms(4)]
  show ?thesis
    by (auto simp: main_addition_body_def Let_def split: sum.splits)
qed

subsection \<open>A failed fitting call\<close>

lemma main_fit_fail_stop:
  assumes "fst (main_fit lib a data) = pre @ CurveFit m V P p0 mf (Inl e) # post"
  shows "post = [Print (FitError m None e)] \<and> snd (main_fit lib a data) = Exited"
  using assms
  by (auto simp: main_fit_def emit_def Let_def Cons_eq_append_conv
           split: option.splits list.splits sum.splits)

lemma main_fail_stop:
  assumes "fst (main lib a) = pre @ CurveFit m V P p0 mf (Inl e) # post"
  shows "post = [Print (FitError m None e)] \<and> snd (main lib a) = Exited"
proof (cases "read_excel lib (filename a) [pressure_column a, volume_column a]")
  case (Inl msg)
  with assms show ?thesis
    by (auto simp: main_def read_data_def Cons_eq_append_conv)
next
  case (Inr data)
  show ?thesis
  proof (cases "{pressure_column a, volume_column a} \<subseteq> set (map fst data)")
    case False
    with Inr assms show ?thesis
      by (auto simp: main_def read_data_def Cons_eq_append_conv)
  next
    case True
    note m = main_loaded [OF Inr True]
    from assms m
    have "[ReadExcel (filename a) [pressure_column a, volume_column a]] @ fst (main_fit lib a data)
            = pre @ CurveFit m V P p0 mf (Inl e) # post"
      by (simp add: fst_emit)
    from split_after [OF this] obtain pre' where
      "fst (main_fit lib a data) = pre' @ CurveFit m V P p0 mf (Inl e) # post" by auto
    from main_fit_fail_stop [OF this] m show ?thesis by (simp add: snd_emit)
  qed
qed

lemma body_fail_stop:
  assumes "main_addition_body lib a ps vs data i = (evs, out)"
      and "evs = pre @ CurveFit m V P p0 mf (Inl e) # post"
  shows "post = [Print (FitError m (Some (ps ! i, vs ! i)) e)] \<and> out = Some Exited
         \<and> i < length ps \<and> map_of data (ps ! i) = Some P \<and> map_of data (vs ! i) = Some V"
  using assms
  by (auto simp: main_addition_body_def Let_def Cons_eq_append_conv
           split: option.splits list.splits sum.splits if_splits)

lemma body_continue_no_failure:
  assumes "main_addition_body lib a ps vs data i = (evs, None)"
  shows "CurveFit m V P p0 mf (Inl e) \<notin> set evs"
  using assms
  by (auto simp: main_addition_body_def Let_def
           split: option.splits list.splits sum.splits if_splits)

lemma loop_fail_stop:
  assumes "fst (main_addition_loop lib a ps vs data idxs)
             = pre @ CurveFit m V P p0 mf (Inl e) # post"
  shows "(\<exists>i \<in> set idxs. post = [Print (FitError m (Some (ps ! i, vs ! i)) e)]
            \<and> i < length ps \<and> map_of data (ps ! i) = Some P \<and> map_of data (vs ! i) = Some V)
         \<and> snd (main_addition_loop lib a ps vs data idxs) = Exited"
  using assms
proof (induction idxs arbitrary: pre)
  case Nil
  then show ?case by simp
next
  case (Cons i idxs)
  obtain evs out where b: "main_addition_body lib a ps vs data i = (evs, out)"
    by (cases "main_addition_body lib a ps vs data i")
  show ?case
  proof (cases out)
    case (Some oc)
    with b Cons.prems have "evs = pre @ CurveFit m V P p0 mf (Inl e) # post" by simp
    from body_fail_stop [OF b this] b Some show ?thesis by simp
  next
    case None
    with b Cons.prems
    have "evs @ fst (main_addition_loop lib a ps vs data idxs)
            = pre @ CurveFit m V P p0 mf (Inl e) # post"
      by (simp add: fst_emit)
    from split_after [OF this body_continue_no_failure [OF b [unfolded None]]]
    obtain pre' where
      "fst (main_addition_loop lib a ps vs data idxs) = pre' @ CurveFit m V P p0 mf (Inl e) # post"
      by auto
    from Cons.IH [OF this] b None show ?thesis by (simp add: snd_emit)
  qed
qed

subsection \<open>Datasets with missing values or without rows\<close>

lemma main_fit_zero_rows:
  assumes "map_of data (pressure_column a) = Some P" and "map_of data (volume_column a) = Some []"
  shows "main_fit lib a data = ([], Uncaught IndexError)"
  using assms by (simp add: main_fit_def)

lemma body_zero_rows:
  assumes "i < length ps" and "i < length vs"
      and "ps ! i \<in> set (map fst data)" and "vs ! i \<in> set (map fst data)"
      and "zero_rows data"
  shows "main_addition_body lib a ps vs data i = ([], Some (Uncaught TypeError))"
proof -
  from assms(3) obtain P where P: "map_of data (ps ! i) = Some P"
    by (metis map_of_eq_None_iff not_None_eq set_map)
  from assms(4) obtain V where V: "map_of data (vs ! i) = Some V"
    by (metis map_of_eq_None_iff not_None_eq set_map)
  from assms(1-4) P V np_isnan_any_zero_rows [OF assms(5)] show ?thesis
    by (simp add: main_addition_body_def)
qed

lemma body_missing:
  assumes "i < length ps" and "i < length vs"
      and "map_of data (ps ! i) = Some P" and "map_of data (vs ! i) = Some V"
      and "None \<in> set P \<or> None \<in> set V"
  shows "main_addition_body lib a ps vs data i = ([Print (MissingWarning (ps ! i) (vs ! i))], None)"
proof -
  from assms(5) have "P \<noteq> [] \<or> V \<noteq> []" by auto
  then have nan: "np_isnan_any data A = Inr (None \<in> set A)" for A
    using np_isnan_any_rows [OF assms(3)] np_isnan_any_rows [OF assms(4)] by blast
  from assms nan map_of_Some_in_names [OF assms(3)] map_of_Some_in_names [OF assms(4)]
  show ?thesis
    by (auto simp: main_addition_body_def)
qed

lemma main_no_interpolate:
  "Interpolate t \<notin> set (fst (main lib a)) \<and> Print (MissingWarning p v) \<notin> set (fst (main lib a))"
  by (auto simp: main_def read_data_def emit_def main_fit_def Let_def
           split: sum.splits option.splits list.splits)

subsection \<open>The sample runs\<close>

lemmas demo_defs =
  read_data_def demo_library_def demo_args_def demo_args_addition_def pandas_read_excel_def
  demo_files_def demo_sheet_def empty_sheet_def emit_def stub_curve_fit_def pandas_interpolate_def
  demo_P_def demo_V_def demo_P2_def demo_V2_def demo_P3_def demo_V3_def Let_def
  np_isnan_any_def zero_rows_def

lemma demo_run_single:
  "main (demo_library []) (demo_args ''data.xlsx'' ''P'' ''V'') =
     ([ReadExcel ''data.xlsx'' [''P'', ''V''],
       CurveFit BirchMurnaghan demo_V demo_P (Some 10, Some 1, Some 1) None
         (Inr (Some 10, Some 1, Some 1)),
       Print (FitReport BirchMurnaghan None (Some 10, Some 1, Some 1)),
       CurveFit Vinet demo_V demo_P (Some 10, Some 1, Some 1) None
         (Inr (Some 10, Some 1, Some 1)),
       Print (FitReport Vinet None (Some 10, Some 1, Some 1)),
       PlotFit BirchMurnaghan demo_V (Some 10, Some 1, Some 1),
       PlotData demo_P demo_V,
       Savefig ''fit.png'' None,
       Show], Completed)"
  by (simp add: main_def main_fit_def demo_defs)

lemma demo_run_single_missing:
  "main (demo_library []) (demo_args ''data.xlsx'' ''P2'' ''V2'') =
     ([ReadExcel ''data.xlsx'' [''P2'', ''V2''],
       CurveFit BirchMurnaghan demo_V2 demo_P2 (None, Some 1, Some 1) None
         (Inl ''array must not contain infs or NaNs''),
       Print (FitError BirchMurnaghan None ''array must not contain infs or NaNs'')], Exited)"
  by (simp add: main_def main_fit_def demo_defs)

lemma demo_run_single_hard:
  "main (demo_library [demo_V]) (demo_args ''data.xlsx'' ''P'' ''V'') =
     ([ReadExcel ''data.xlsx'' [''P'', ''V''],
       CurveFit BirchMurnaghan demo_V demo_P (Some 10, Some 1, Some 1) None
         (Inl ''Optimal parameters not found''),
       Print (FitError BirchMurnaghan None ''Optimal parameters not found'')], Exited)"
  by (simp add: main_def main_fit_def demo_defs)

lemma demo_run_addition:
  "main_addition (demo_library []) (demo_args_addition ''data.xlsx'' (Some [''P2'', ''P'']) (Some [''V2'', ''V''])) =
     ([ReadExcel ''data.xlsx'' [''P2'', ''P'', ''V2'', ''V''],
       Interpolate [(''P'', demo_P), (''V'', demo_V), (''P2'', demo_P2), (''V2'', demo_V2)],
       Print (MissingWarning ''P2'' ''V2''),
       CurveFit BirchMurnaghan demo_V demo_P (Some 10, Some 160, Some 5) (Some 5000)
         (Inr (Some 10, Some 160, Some 5)),
       Print (FitReport BirchMurnaghan (Some (''P'', ''V'')) (Some 10, Some 160, Some 5)),
       CurveFit Vinet demo_V demo_P (Some 10, Some 160, Some 5) None
         (Inr (Some 10, Some 160, Some 5)),
       Print (FitReport Vinet (Some (''P'', ''V'')) (Some 10, Some 160, Some 5)),
       PlotFit BirchMurnaghan demo_V (Some 10, Some 160, Some 5),
       PlotData demo_P demo_V,
       Savefig ''fit.png'' (Some 800)], Completed)"
  by (simp add: main_addition_def main_addition_body_def demo_defs upt_rec)

lemma demo_run_addition_hard:
  "main_addition (demo_library [demo_V3]) (demo_args_addition ''data.xlsx'' (Some [''P'', ''P3'']) (Some [''V'', ''V3''])) =
     ([ReadExcel ''data.xlsx'' [''P'', ''P3'', ''V'', ''V3''],
       Interpolate [(''P'', demo_P), (''V'', demo_V), (''P3'', demo_P3), (''V3'', demo_V3)],
       CurveFit BirchMurnaghan demo_V demo_P (Some 10, Some 160, Some 5) (Some 5000)
         (Inr (Some 10, Some 160, Some 5)),
       Print (FitReport BirchMurnaghan (Some (''P'', ''V'')) (Some 10, Some 160, Some 5)),
       CurveFit Vinet demo_V demo_P (Some 10, Some 160, Some 5) None
         (Inr (Some 10, Some 160, Some 5)),
       Print (FitReport Vinet (Some (''P'', ''V'')) (Some 10, Some 160, Some 5)),
       PlotFit BirchMurnaghan demo_V (Some 10, Some 160, Some 5),
       PlotData demo_P demo_V,
       Savefig ''fit.png'' (Some 800),
       CurveFit BirchMurnaghan demo_V3 demo_P3 (Some 6, Some 160, Some 5) (Some 5000)
         (Inl ''Optimal parameters not found''),
       Print (FitError BirchMurnaghan (Some (''P3'', ''V3'')) ''Optimal parameters not found'')],
      Exited)"
  by (simp add: main_addition_def main_addition_body_def demo_defs upt_rec)

subsection \<open>Argument lists of different lengths\<close>

text \<open>
  Claim C7. In the multi-dataset variant, when the \<open>--pressures\<close> and \<open>--volumes\<close> lists
  have different lengths the program prints the error and exits: the whole run is that one
  line, so no file is read and no fit is made.
\<close>

theorem mismatched_lengths_exit:
  assumes "pressures a = Some ps" and "volumes a = Some vs" and "length ps \<noteq> length vs"
  shows "main_addition lib a = ([Print LengthError], Exited)"
  using assms by (simp add: main_addition_def)

theorem mismatched_lengths_exit_witness:
  "pressures (demo_args_addition ''data.xlsx'' (Some [''P'', ''P3'']) (Some [''V''])) = Some [''P'', ''P3'']
   \<and> volumes (demo_args_addition ''data.xlsx'' (Some [''P'', ''P3'']) (Some [''V''])) = Some [''V'']
   \<and> length [''P'', ''P3''] \<noteq> length [''V'']
   \<and> main_addition (demo_library []) (demo_args_addition ''data.xlsx'' (Some [''P'', ''P3'']) (Some [''V'']))
       = ([Print LengthError], Exited)"
proof -
  let ?a = "demo_args_addition ''data.xlsx'' (Some [''P'', ''P3'']) (Some [''V''])"
  have h1: "pressures ?a = Some [''P'', ''P3'']" by (simp add: demo_args_addition_def)
  have h2: "volumes ?a = Some [''V'']" by (simp add: demo_args_addition_def)
  have h3: "length [''P'', ''P3''] \<noteq> length [''V'']" by simp
  from mismatched_lengths_exit [OF h1 h2 h3, of "demo_library []"] h1 h2 h3
  show ?thesis by blast
qed

subsection \<open>Datasets without rows\<close>

lemma demo_run_single_empty:
  "main (demo_library []) (demo_args ''empty.xlsx'' ''P'' ''V'') =
     ([ReadExcel ''empty.xlsx'' [''P'', ''V'']], Uncaught IndexError)"
  by (simp add: main_def main_fit_def demo_defs)

lemma demo_run_addition_empty:
  "main_addition (demo_library []) (demo_args_addition ''empty.xlsx'' (Some [''P'']) (Some [''V''])) =
     ([ReadExcel ''empty.xlsx'' [''P'', ''V''], Interpolate empty_sheet], Uncaught TypeError)"
  by (simp add: main_addition_def main_addition_body_def demo_defs upt_rec)

text \<open>
  Claim C10, as stated, fails for the multi-dataset variant: on a sheet without rows the
  missing-value test of line 70 comes before \<open>V[0]\<close> and \<open>np.isnan\<close> raises \<open>TypeError\<close> on
  the arrays of dtype \<open>object\<close>, so the exception that ends the run is not \<open>IndexError\<close>.
\<close>

theorem zero_rows_counterexample:
  "snd (main_addition (demo_library [])
          (demo_args_addition ''empty.xlsx'' (Some [''P'']) (Some [''V''])))
     = Uncaught TypeError
   \<and> snd (main_addition (demo_library [])
            (demo_args_addition ''empty.xlsx'' (Some [''P'']) (Some [''V''])))
     \<noteq> Uncaught IndexError"
  by (simp add: demo_run_addition_empty)

text \<open>
  Claim C10, amended. When the loaded dataset has zero rows, both variants die of an
  exception raised outside every \<open>try\<close>: the single-dataset variant of \<open>IndexError\<close> at
  \<open>V[0]\<close>, the multi-dataset variant of \<open>TypeError\<close> at the \<open>np.isnan\<close> test, before \<open>V[0]\<close>
  is reached. In both the run ends with the uncaught exception after the table was read
  (and, in the multi-dataset variant, interpolated), without any error line printed and
  without any fitting call.
\<close>

theorem zero_rows_uncaught_exception:
  "(read_excel lib (filename a) [pressure_column a, volume_column a] = Inr data
      \<and> map_of data (pressure_column a) = Some P \<and> map_of data (volume_column a) = Some []
    \<longrightarrow> main lib a =
          ([ReadExcel (filename a) [pressure_column a, volume_column a]], Uncaught IndexError))
   \<and> (pressures b = Some ps \<and> volumes b = Some vs \<and> length ps = length vs \<and> ps \<noteq> []
      \<and> read_excel lib (filename_addition b) (ps @ vs) = Inr data'
      \<and> zero_rows (interpolate lib data')
      \<and> ps ! 0 \<in> set (map fst (interpolate lib data'))
      \<and> vs ! 0 \<in> set (map fst (interpolate lib data'))
    \<longrightarrow> main_addition lib b =
          ([ReadExcel (filename_addition b) (ps @ vs), Interpolate data'], Uncaught TypeError))"
proof (intro conjI impI)
  assume h: "read_excel lib (filename a) [pressure_column a, volume_column a] = Inr data
      \<and> map_of data (pressure_column a) = Some P \<and> map_of data (volume_column a) = Some []"
  then have names: "{pressure_column a, volume_column a} \<subseteq> set (map fst data)"
    using map_of_Some_in_names [of data "pressure_column a" P]
      map_of_Some_in_names [of data "volume_column a" "[]"] by simp
  from h main_loaded [OF _ names, of lib] main_fit_zero_rows [of data a P lib]
  show "main lib a =
          ([ReadExcel (filename a) [pressure_column a, volume_column a]], Uncaught IndexError)"
    by (simp add: emit_def)
next
  assume h: "pressures b = Some ps \<and> volumes b = Some vs \<and> length ps = length vs \<and> ps \<noteq> []
      \<and> read_excel lib (filename_addition b) (ps @ vs) = Inr data'
      \<and> zero_rows (interpolate lib data')
      \<and> ps ! 0 \<in> set (map fst (interpolate lib data'))
      \<and> vs ! 0 \<in> set (map fst (interpolate lib data'))"
  then have l: "0 < length ps" "0 < length vs" by auto
  then have u: "[0..<length ps] = 0 # [Suc 0..<length ps]" by (simp add: upt_conv_Cons)
  from h have b0: "main_addition_body lib b ps vs (interpolate lib data') 0
                     = ([], Some (Uncaught TypeError))"
    using body_zero_rows [OF l, of "interpolate lib data'" lib b] by simp
  from h have "main_addition lib b =
           emit [ReadExcel (filename_addition b) (ps @ vs), Interpolate data']
             (main_addition_loop lib b ps vs (interpolate lib data') [0..<length ps])"
    using main_addition_loaded [of b ps vs lib data'] by simp
  with b0 u show "main_addition lib b =
          ([ReadExcel (filename_addition b) (ps @ vs), Interpolate data'], Uncaught TypeError)"
    by (simp add: emit_def)
qed

theorem zero_rows_uncaught_exception_witness:
  "main (demo_library []) (demo_args ''empty.xlsx'' ''P'' ''V'')
     = ([ReadExcel ''empty.xlsx'' [''P'', ''V'']], Uncaught IndexError)
   \<and> zero_rows (pandas_interpolate empty_sheet)
   \<and> main_addition (demo_library [])
        (demo_args_addition ''empty.xlsx'' (Some [''P'']) (Some [''V'']))
     = ([ReadExcel ''empty.xlsx'' [''P'', ''V''], Interpolate empty_sheet], Uncaught TypeError)"
proof -
  let ?lib = "demo_library []"
  let ?a = "demo_args ''empty.xlsx'' ''P'' ''V''"
  let ?b = "demo_args_addition ''empty.xlsx'' (Some [''P'']) (Some [''V''])"
  have h1: "read_excel ?lib (filename ?a) [pressure_column ?a, volume_column ?a] = Inr empty_sheet
      \<and> map_of empty_sheet (pressure_column ?a) = Some [] \<and> map_of empty_sheet (volume_column ?a) = Some []"
    by (simp add: demo_defs)
  have z: "zero_rows (pandas_interpolate empty_sheet)"
    by (simp add: zero_rows_def pandas_interpolate_def empty_sheet_def)
  have h2: "pressures ?b = Some [''P''] \<and> volumes ?b = Some [''V'']
      \<and> length [''P''] = length [''V''] \<and> [''P''] \<noteq> []
      \<and> read_excel ?lib (filename_addition ?b) ([''P''] @ [''V'']) = Inr empty_sheet
      \<and> zero_rows (interpolate ?lib empty_sheet)
      \<and> [''P''] ! 0 \<in> set (map fst (interpolate ?lib empty_sheet))
      \<and> [''V''] ! 0 \<in> set (map fst (interpolate ?lib empty_sheet))"
    by (simp add: demo_defs)
  have f: "filename ?a = ''empty.xlsx''" "pressure_column ?a = ''P''" "volume_column ?a = ''V''"
    "filename_addition ?b = ''empty.xlsx''"
    by (simp_all add: demo_args_def demo_args_addition_def)
  from zero_rows_uncaught_exception
         [of ?lib ?a empty_sheet "[]" ?b "[''P'']" "[''V'']" empty_sheet] h1 h2 z
  show ?thesis unfolding f by simp
qed

subsection \<open>The initial guess and the iteration budget\<close>

text \<open>
  Claim C9. Every fitting call is made on a non-empty volume array and gets, as initial
  guess, the first volume for \<open>V0\<close> together with \<open>(1, 1)\<close> in the single-dataset variant
  and \<open>(160, 5)\<close> in the multi-dataset variant; and for a non-empty dataset that reaches
  the fits (in the multi-dataset variant: one without missing values) the first call is
  made with that guess.
\<close>

theorem initial_guess_policy:
  "(CurveFit m V P p0 mf r \<in> set (fst (main lib a))
      \<longrightarrow> V \<noteq> [] \<and> p0 = (hd V, Some 1, Some 1))
   \<and> (CurveFit m' V' P' p0' mf' r' \<in> set (fst (main_addition lib b))
      \<longrightarrow> V' \<noteq> [] \<and> p0' = (hd V', Some 160, Some 5))
   \<and> (map_of data (pressure_column a) = Some Pc \<and> map_of data (volume_column a) = Some (v0 # Vr)
      \<longrightarrow> (\<exists>rest. fst (main_fit lib a data) =
             CurveFit BirchMurnaghan (v0 # Vr) Pc (v0, Some 1, Some 1) None
               (curve_fit lib birch_murnaghan (v0 # Vr) Pc (v0, Some 1, Some 1) None) # rest))
   \<and> (i < length ps \<and> i < length vs
      \<and> map_of data' (ps ! i) = Some Pc' \<and> map_of data' (vs ! i) = Some (v0' # Vr')
      \<and> None \<notin> set Pc' \<and> None \<notin> set (v0' # Vr')
      \<longrightarrow> (\<exists>rest. fst (main_addition_body lib b ps vs data' i) =
             CurveFit BirchMurnaghan (v0' # Vr') Pc' (v0', Some 160, Some 5) (Some 5000)
               (curve_fit lib birch_murnaghan_addition (v0' # Vr') Pc' (v0', Some 160, Some 5)
                  (Some 5000)) # rest))"
  using main_fits [of m V P p0 mf r lib a] main_addition_fits [of m' V' P' p0' mf' r' lib b]
    main_fit_first_call [of data a Pc v0 Vr lib]
    body_first_call [of i ps vs data' Pc' v0' Vr' lib b]
  by blast

theorem initial_guess_policy_witness:
  "CurveFit Vinet demo_V demo_P (Some 10, Some 1, Some 1) None (Inr (Some 10, Some 1, Some 1))
     \<in> set (fst (main (demo_library []) (demo_args ''data.xlsx'' ''P'' ''V'')))
   \<and> CurveFit BirchMurnaghan demo_V demo_P (Some 10, Some 160, Some 5) (Some 5000)
       (Inr (Some 10, Some 160, Some 5))
     \<in> set (fst (main_addition (demo_library [])
                   (demo_args_addition ''data.xlsx'' (Some [''P2'', ''P'']) (Some [''V2'', ''V'']))))
   \<and> demo_V \<noteq> []
   \<and> ((Some 10, Some 1, Some 1) :: params) = (hd demo_V, Some 1, Some 1)
   \<and> ((Some 10, Some 160, Some 5) :: params) = (hd demo_V, Some 160, Some 5)
   \<and> (\<exists>rest. fst (main_fit (demo_library []) (demo_args ''data.xlsx'' ''P'' ''V'') demo_sheet) =
        CurveFit BirchMurnaghan demo_V demo_P (Some 10, Some 1, Some 1) None
          (Inr (Some 10, Some 1, Some 1)) # rest)
   \<and> (\<exists>rest. fst (main_addition_body (demo_library [])
                     (demo_args_addition ''data.xlsx'' (Some [''P2'', ''P'']) (Some [''V2'', ''V'']))
                     [''P2'', ''P''] [''V2'', ''V''] demo_sheet 1) =
        CurveFit BirchMurnaghan demo_V demo_P (Some 10, Some 160, Some 5) (Some 5000)
          (Inr (Some 10, Some 160, Some 5)) # rest)"
proof -
  let ?lib = "demo_library []"
  let ?a = "demo_args ''data.xlsx'' ''P'' ''V''"
  let ?b = "demo_args_addition ''data.xlsx'' (Some [''P2'', ''P'']) (Some [''V2'', ''V''])"
  let ?Vr = "[Some (98/10), Some (96/10), Some (92/10)] :: column"
  have e1: "CurveFit Vinet demo_V demo_P (Some 10, Some 1, Some 1) None
              (Inr (Some 10, Some 1, Some 1)) \<in> set (fst (main ?lib ?a))"
    by (simp add: demo_run_single)
  have e2: "CurveFit BirchMurnaghan demo_V demo_P (Some 10, Some 160, Some 5) (Some 5000)
              (Inr (Some 10, Some 160, Some 5)) \<in> set (fst (main_addition ?lib ?b))"
    by (simp add: demo_run_addition)
  have V: "demo_V = Some 10 # ?Vr" by (simp add: demo_V_def)
  have h3: "map_of demo_sheet (pressure_column ?a) = Some demo_P
            \<and> map_of demo_sheet (volume_column ?a) = Some (Some 10 # ?Vr)"
    by (simp add: demo_sheet_def demo_args_def demo_V_def)
  have h4: "(1::nat) < length [''P2'', ''P''] \<and> (1::nat) < length [''V2'', ''V'']
            \<and> map_of demo_sheet ([''P2'', ''P''] ! 1) = Some demo_P
            \<and> map_of demo_sheet ([''V2'', ''V''] ! 1) = Some (Some 10 # ?Vr)
            \<and> None \<notin> set demo_P \<and> None \<notin> set (Some 10 # ?Vr)"
    by (simp add: demo_sheet_def demo_V_def demo_P_def)
  have c: "curve_fit ?lib birch_murnaghan demo_V demo_P (Some 10, Some 1, Some 1) None
             = Inr (Some 10, Some 1, Some 1)"
    "curve_fit ?lib birch_murnaghan_addition demo_V demo_P (Some 10, Some 160, Some 5)
       (Some 5000) = Inr (Some 10, Some 160, Some 5)"
    by (simp_all add: demo_library_def stub_curve_fit_def demo_P_def demo_V_def)
  from initial_guess_policy
         [of Vinet demo_V demo_P "(Some 10, Some 1, Some 1)" None "Inr (Some 10, Some 1, Some 1)"
             ?lib ?a
             BirchMurnaghan demo_V demo_P "(Some 10, Some 160, Some 5)" "Some 5000"
             "Inr (Some 10, Some 160, Some 5)" ?b
             demo_sheet demo_P "Some 10" ?Vr
             1 "[''P2'', ''P'']" "[''V2'', ''V'']" demo_sheet demo_P "Some 10" ?Vr]
       e1 e2 h3 h4
  show ?thesis unfolding c V [symmetric] by blast
qed

text \<open>
  Claim C8, as stated, fails: in the multi-dataset variant the Vinet call is made without
  \<open>maxfev\<close>, so not every fitting call of that variant has the budget 5000.
\<close>

theorem maxfev_counterexample:
  "CurveFit Vinet demo_V demo_P (Some 10, Some 160, Some 5) None (Inr (Some 10, Some 160, Some 5))
     \<in> set (fst (main_addition (demo_library [])
                   (demo_args_addition ''data.xlsx'' (Some [''P2'', ''P'']) (Some [''V2'', ''V'']))))"
  by (simp add: demo_run_addition)

text \<open>
  Claim C8, amended. The multi-dataset variant raises the budget to 5000 for its
  Birch-Murnaghan calls only; its Vinet calls and every call of the single-dataset
  variant are made with the default budget (no \<open>maxfev\<close>).
\<close>

theorem maxfev_budget:
  "(CurveFit m V P p0 mf r \<in> set (fst (main_addition lib b))
      \<longrightarrow> mf = (case m of BirchMurnaghan \<Rightarrow> Some 5000 | Vinet \<Rightarrow> None))
   \<and> (CurveFit m' V' P' p0' mf' r' \<in> set (fst (main lib a)) \<longrightarrow> mf' = None)"
  using main_addition_fits [of m V P p0 mf r lib b] main_fits [of m' V' P' p0' mf' r' lib a]
  by blast

theorem maxfev_budget_witness:
  "CurveFit BirchMurnaghan demo_V demo_P (Some 10, Some 160, Some 5) (Some 5000)
       (Inr (Some 10, Some 160, Some 5))
     \<in> set (fst (main_addition (demo_library [])
                   (demo_args_addition ''data.xlsx'' (Some [''P2'', ''P'']) (Some [''V2'', ''V'']))))
   \<and> CurveFit BirchMurnaghan demo_V demo_P (Some 10, Some 1, Some 1) None
       (Inr (Some 10, Some 1, Some 1))
     \<in> set (fst (main (demo_library []) (demo_args ''data.xlsx'' ''P'' ''V'')))
   \<and> Some 5000 = (case BirchMurnaghan of BirchMurnaghan \<Rightarrow> Some (5000::nat) | Vinet \<Rightarrow> None)
   \<and> (None :: nat option) = None"
proof -
  let ?lib = "demo_library []"
  let ?a = "demo_args ''data.xlsx'' ''P'' ''V''"
  let ?b = "demo_args_addition ''data.xlsx'' (Some [''P2'', ''P'']) (Some [''V2'', ''V''])"
  have e1: "CurveFit BirchMurnaghan demo_V demo_P (Some 10, Some 160, Some 5) (Some 5000)
              (Inr (Some 10, Some 160, Some 5)) \<in> set (fst (main_addition ?lib ?b))"
    by (simp add: demo_run_addition)
  have e2: "CurveFit BirchMurnaghan demo_V demo_P (Some 10, Some 1, Some 1) None
              (Inr (Some 10, Some 1, Some 1)) \<in> set (fst (main ?lib ?a))"
    by (simp add: demo_run_single)
  from maxfev_budget
         [of BirchMurnaghan demo_V demo_P "(Some 10, Some 160, Some 5)" "Some 5000"
             "Inr (Some 10, Some 160, Some 5)" ?lib ?b
             BirchMurnaghan demo_V demo_P "(Some 10, Some 1, Some 1)" None
             "Inr (Some 10, Some 1, Some 1)" ?a]
       e1 e2
  show ?thesis by blast
qed

subsection \<open>Failed fits\<close>

lemma main_addition_fail_stop:
  assumes "fst (main_addition lib b) = pre @ CurveFit m V P p0 mf (Inl e) # post"
  shows "(\<exists>ps vs data i. pressures b = Some ps \<and> volumes b = Some vs \<and> i < length ps
            \<and> read_excel lib (filename_addition b) (ps @ vs) = Inr data
            \<and> map_of (interpolate lib data) (ps ! i) = Some P
            \<and> map_of (interpolate lib data) (vs ! i) = Some V
            \<and> post = [Print (FitError m (Some (ps ! i, vs ! i)) e)])
         \<and> snd (main_addition lib b) = Exited"
proof (cases "pressures b")
  case None
  with assms show ?thesis by (simp add: main_addition_def)
next
  case ps: (Some ps)
  show ?thesis
  proof (cases "volumes b")
    case None
    with ps assms show ?thesis by (simp add: main_addition_def)
  next
    case vs: (Some vs)
    show ?thesis
    proof (cases "length ps = length vs")
      case False
      with ps vs assms show ?thesis
        by (auto simp: main_addition_def Cons_eq_append_conv)
    next
      case len: True
      show ?thesis
      proof (cases "read_excel lib (filename_addition b) (ps @ vs)")
        case (Inl msg)
        with ps vs len assms show ?thesis
          by (auto simp: main_addition_def read_data_def Cons_eq_append_conv)
      next
        case (Inr data)
        note m = main_addition_loaded [OF ps vs len Inr]
        let ?loop = "main_addition_loop lib b ps vs (interpolate lib data) [0..<length ps]"
        from assms m
        have "[ReadExcel (filename_addition b) (ps @ vs), Interpolate data] @ fst ?loop
                = pre @ CurveFit m V P p0 mf (Inl e) # post"
          by (simp add: fst_emit)
        from split_after [OF this] obtain pre' where
          "fst ?loop = pre' @ CurveFit m V P p0 mf (Inl e) # post" by auto
        from loop_fail_stop [OF this] m ps vs Inr show ?thesis
          by (auto simp: snd_emit)
      qed
    qed
  qed
qed

text \<open>
  Claim C5, as stated, fails on two counts. In the multi-dataset variant \<open>plt.savefig\<close> is
  inside the loop: when the fit of a later dataset fails, the image saved after the
  earlier datasets and their printed parameters remain. In the single-dataset variant
  the error line names the model but no column.
\<close>

theorem fit_failure_counterexample:
  "CurveFit BirchMurnaghan demo_V3 demo_P3 (Some 6, Some 160, Some 5) (Some 5000)
       (Inl ''Optimal parameters not found'')
     \<in> set (fst (main_addition (demo_library [demo_V3])
                   (demo_args_addition ''data.xlsx'' (Some [''P'', ''P3'']) (Some [''V'', ''V3'']))))
   \<and> snd (main_addition (demo_library [demo_V3])
            (demo_args_addition ''data.xlsx'' (Some [''P'', ''P3'']) (Some [''V'', ''V3''])))
       = Exited
   \<and> Savefig ''fit.png'' (Some 800)
     \<in> set (fst (main_addition (demo_library [demo_V3])
                   (demo_args_addition ''data.xlsx'' (Some [''P'', ''P3'']) (Some [''V'', ''V3'']))))
   \<and> Print (FitReport BirchMurnaghan (Some (''P'', ''V'')) (Some 10, Some 160, Some 5))
     \<in> set (fst (main_addition (demo_library [demo_V3])
                   (demo_args_addition ''data.xlsx'' (Some [''P'', ''P3'']) (Some [''V'', ''V3'']))))
   \<and> main (demo_library [demo_V]) (demo_args ''data.xlsx'' ''P'' ''V'') =
       ([ReadExcel ''data.xlsx'' [''P'', ''V''],
         CurveFit BirchMurnaghan demo_V demo_P (Some 10, Some 1, Some 1) None
           (Inl ''Optimal parameters not found''),
         Print (FitError BirchMurnaghan None ''Optimal parameters not found'')], Exited)"
  by (simp add: demo_run_addition_hard demo_run_single_hard)

text \<open>
  Claim C5, amended. In both variants the result recorded for a fitting call is the one
  the fitting engine gave, and whenever a fitting call fails the program prints one error
  line and exits: nothing follows that line, so the call is not retried and no further
  fit, plot or save is made. The line names the model; in the multi-dataset variant it
  also names the pressure and volume columns being fitted, in the single-dataset variant it
  names no column.
\<close>

theorem fit_failure_terminates_run:
  "(fst (main lib a) = pre @ CurveFit m V P p0 mf (Inl e) # post
      \<longrightarrow> post = [Print (FitError m None e)] \<and> snd (main lib a) = Exited)
   \<and> (fst (main_addition lib b) = pre' @ CurveFit m' V' P' p0' mf' (Inl e') # post'
      \<longrightarrow> (\<exists>ps vs data i. pressures b = Some ps \<and> volumes b = Some vs \<and> i < length ps
              \<and> read_excel lib (filename_addition b) (ps @ vs) = Inr data
              \<and> map_of (interpolate lib data) (ps ! i) = Some P'
              \<and> map_of (interpolate lib data) (vs ! i) = Some V'
              \<and> post' = [Print (FitError m' (Some (ps ! i, vs ! i)) e')])
          \<and> snd (main_addition lib b) = Exited)
   \<and> (CurveFit m V P p0 mf r \<in> set (fst (main lib a))
      \<longrightarrow> r = curve_fit lib (case m of BirchMurnaghan \<Rightarrow> birch_murnaghan | Vinet \<Rightarrow> vinet)
                 V P p0 mf)
   \<and> (CurveFit m' V' P' p0' mf' r' \<in> set (fst (main_addition lib b))
      \<longrightarrow> r' = curve_fit lib
                  (case m' of BirchMurnaghan \<Rightarrow> birch_murnaghan_addition | Vinet \<Rightarrow> vinet_addition)
                  V' P' p0' mf')"
  using main_fail_stop [of lib a pre m V P p0 mf e post]
    main_addition_fail_stop [of lib b pre' m' V' P' p0' mf' e' post']
    main_fits [of m V P p0 mf r lib a] main_addition_fits [of m' V' P' p0' mf' r' lib b]
  by blast

theorem fit_failure_terminates_run_witness:
  "fst (main (demo_library [demo_V]) (demo_args ''data.xlsx'' ''P'' ''V''))
     = [ReadExcel ''data.xlsx'' [''P'', ''V'']]
       @ CurveFit BirchMurnaghan demo_V demo_P (Some 10, Some 1, Some 1) None
           (Inl ''Optimal parameters not found'')
       # [Print (FitError BirchMurnaghan None ''Optimal parameters not found'')]
   \<and> snd (main (demo_library [demo_V]) (demo_args ''data.xlsx'' ''P'' ''V'')) = Exited
   \<and> Inl ''Optimal parameters not found''
       = curve_fit (demo_library [demo_V]) birch_murnaghan demo_V demo_P
           (Some 10, Some 1, Some 1) None
   \<and> snd (main_addition (demo_library [demo_V3])
            (demo_args_addition ''data.xlsx'' (Some [''P'', ''P3'']) (Some [''V'', ''V3''])))
       = Exited
   \<and> Inl ''Optimal parameters not found''
       = curve_fit (demo_library [demo_V3]) birch_murnaghan_addition demo_V3 demo_P3
           (Some 6, Some 160, Some 5) (Some 5000)"
proof -
  let ?l1 = "demo_library [demo_V]"
  let ?a = "demo_args ''data.xlsx'' ''P'' ''V''"
  let ?l2 = "demo_library [demo_V3]"
  let ?b = "demo_args_addition ''data.xlsx'' (Some [''P'', ''P3'']) (Some [''V'', ''V3''])"
  let ?e = "''Optimal parameters not found''"
  let ?pre = "[ReadExcel ''data.xlsx'' [''P'', ''P3'', ''V'', ''V3''],
       Interpolate [(''P'', demo_P), (''V'', demo_V), (''P3'', demo_P3), (''V3'', demo_V3)],
       CurveFit BirchMurnaghan demo_V demo_P (Some 10, Some 160, Some 5) (Some 5000)
         (Inr (Some 10, Some 160, Some 5)),
       Print (FitReport BirchMurnaghan (Some (''P'', ''V'')) (Some 10, Some 160, Some 5)),
       CurveFit Vinet demo_V demo_P (Some 10, Some 160, Some 5) None
         (Inr (Some 10, Some 160, Some 5)),
       Print (FitReport Vinet (Some (''P'', ''V'')) (Some 10, Some 160, Some 5)),
       PlotFit BirchMurnaghan demo_V (Some 10, Some 160, Some 5),
       PlotData demo_P demo_V,
       Savefig ''fit.png'' (Some 800)]"
  have s1: "fst (main ?l1 ?a)
     = [ReadExcel ''data.xlsx'' [''P'', ''V'']]
       @ CurveFit BirchMurnaghan demo_V demo_P (Some 10, Some 1, Some 1) None (Inl ?e)
       # [Print (FitError BirchMurnaghan None ?e)]"
    by (simp add: demo_run_single_hard)
  have s2: "CurveFit BirchMurnaghan demo_V demo_P (Some 10, Some 1, Some 1) None (Inl ?e)
              \<in> set (fst (main ?l1 ?a))"
    by (simp add: demo_run_single_hard)
  have m1: "fst (main_addition ?l2 ?b)
     = ?pre @ CurveFit BirchMurnaghan demo_V3 demo_P3 (Some 6, Some 160, Some 5) (Some 5000) (Inl ?e)
       # [Print (FitError BirchMurnaghan (Some (''P3'', ''V3'')) ?e)]"
    by (simp add: demo_run_addition_hard)
  have m2: "CurveFit BirchMurnaghan demo_V3 demo_P3 (Some 6, Some 160, Some 5) (Some 5000) (Inl ?e)
              \<in> set (fst (main_addition ?l2 ?b))"
    by (simp add: demo_run_addition_hard)
  note single = fit_failure_terminates_run
         [of ?l1 ?a "[ReadExcel ''data.xlsx'' [''P'', ''V'']]" BirchMurnaghan demo_V demo_P
             "(Some 10, Some 1, Some 1)" None ?e "[Print (FitError BirchMurnaghan None ?e)]"]
  note multi = fit_failure_terminates_run
         [where lib = ?l2 and b = ?b and pre' = ?pre and m' = BirchMurnaghan and V' = demo_V3
            and P' = demo_P3 and p0' = "(Some 6, Some 160, Some 5)" and mf' = "Some 5000"
            and e' = ?e and post' = "[Print (FitError BirchMurnaghan (Some (''P3'', ''V3'')) ?e)]"
            and r' = "Inl ?e"]
  from single [of _ _ _ _ _ _ _ _ _ _ "Inl ?e"] s1 s2
  have c1: "snd (main ?l1 ?a) = Exited"
    and c2: "Inl ?e = curve_fit ?l1 birch_murnaghan demo_V demo_P (Some 10, Some 1, Some 1) None"
    by simp_all
  from multi m1 m2
  have c3: "snd (main_addition ?l2 ?b) = Exited"
    and c4: "Inl ?e = curve_fit ?l2 birch_murnaghan_addition demo_V3 demo_P3
               (Some 6, Some 160, Some 5) (Some 5000)"
    by simp_all
  from s1 c1 c2 c3 c4 show ?thesis by blast
qed

subsection \<open>Missing values\<close>

text \<open>
  Claim C2, as stated, fails: the variant that does not interpolate (\<open>eos.py\<close>) has no
  check for missing values either. On a column pair with missing cells it prints no
  warning and calls the fitting engine with the arrays as loaded.
\<close>

theorem missing_values_counterexample:
  "None \<in> set demo_P2
   \<and> main (demo_library []) (demo_args ''data.xlsx'' ''P2'' ''V2'') =
       ([ReadExcel ''data.xlsx'' [''P2'', ''V2''],
         CurveFit BirchMurnaghan demo_V2 demo_P2 (None, Some 1, Some 1) None
           (Inl ''array must not contain infs or NaNs''),
         Print (FitError BirchMurnaghan None ''array must not contain infs or NaNs'')], Exited)"
  by (simp add: demo_run_single_missing) (simp add: demo_P2_def)

text \<open>
  Claim C2, amended. Exactly one variant, the multi-dataset one, interpolates the full
  table before the columns are extracted, and that same variant, for every column pair
  that still has a missing value after interpolation, prints a warning, makes no fit for
  the pair and goes on to the next pair. The single-dataset variant never interpolates
  and never prints that warning: a dataset that has a first row goes to the fitting
  engine as loaded, missing values included.
\<close>

theorem missing_values_handling:
  "Interpolate t \<notin> set (fst (main lib a))
   \<and> Print (MissingWarning p v) \<notin> set (fst (main lib a))
   \<and> (map_of data (pressure_column a) = Some Pc \<and> map_of data (volume_column a) = Some (v0 # Vr)
      \<longrightarrow> (\<exists>rest. fst (main_fit lib a data) =
             CurveFit BirchMurnaghan (v0 # Vr) Pc (v0, Some 1, Some 1) None
               (curve_fit lib birch_murnaghan (v0 # Vr) Pc (v0, Some 1, Some 1) None) # rest))
   \<and> (pressures b = Some ps \<and> volumes b = Some vs \<and> length ps = length vs
      \<and> read_excel lib (filename_addition b) (ps @ vs) = Inr data'
      \<longrightarrow> main_addition lib b =
            emit [ReadExcel (filename_addition b) (ps @ vs), Interpolate data']
              (main_addition_loop lib b ps vs (interpolate lib data') [0..<length ps]))
   \<and> (i < length ps' \<and> i < length vs'
      \<and> map_of data'' (ps' ! i) = Some P \<and> map_of data'' (vs' ! i) = Some V
      \<and> (None \<in> set P \<or> None \<in> set V)
      \<longrightarrow> main_addition_loop lib b ps' vs' data'' (i # idxs) =
            emit [Print (MissingWarning (ps' ! i) (vs' ! i))]
              (main_addition_loop lib b ps' vs' data'' idxs))"
proof -
  have step: "main_addition_loop lib b ps' vs' data'' (i # idxs) =
            emit [Print (MissingWarning (ps' ! i) (vs' ! i))]
              (main_addition_loop lib b ps' vs' data'' idxs)"
    if "i < length ps' \<and> i < length vs'
      \<and> map_of data'' (ps' ! i) = Some P \<and> map_of data'' (vs' ! i) = Some V
      \<and> (None \<in> set P \<or> None \<in> set V)"
    using that body_missing [of i ps' vs' data'' P V lib b] by simp
  from step main_no_interpolate [of t lib a p v] main_fit_first_call [of data a Pc v0 Vr lib]
    main_addition_loaded [of b ps vs lib data']
  show ?thesis by blast
qed

theorem missing_values_handling_witness:
  "Interpolate demo_sheet \<notin> set (fst (main (demo_library []) (demo_args ''data.xlsx'' ''P2'' ''V2'')))
   \<and> Print (MissingWarning ''P2'' ''V2'')
       \<notin> set (fst (main (demo_library []) (demo_args ''data.xlsx'' ''P2'' ''V2'')))
   \<and> (\<exists>rest. fst (main_fit (demo_library []) (demo_args ''data.xlsx'' ''P2'' ''V2'') demo_sheet) =
         CurveFit BirchMurnaghan demo_V2 demo_P2 (None, Some 1, Some 1) None
           (Inl ''array must not contain infs or NaNs'') # rest)
   \<and> main_addition (demo_library [])
        (demo_args_addition ''data.xlsx'' (Some [''P2'', ''P'']) (Some [''V2'', ''V''])) =
       emit [ReadExcel ''data.xlsx'' [''P2'', ''P'', ''V2'', ''V''],
             Interpolate [(''P'', demo_P), (''V'', demo_V), (''P2'', demo_P2), (''V2'', demo_V2)]]
         (main_addition_loop (demo_library [])
            (demo_args_addition ''data.xlsx'' (Some [''P2'', ''P'']) (Some [''V2'', ''V'']))
            [''P2'', ''P''] [''V2'', ''V'']
            (pandas_interpolate [(''P'', demo_P), (''V'', demo_V), (''P2'', demo_P2), (''V2'', demo_V2)])
            [0..<2])
   \<and> map_of (pandas_interpolate demo_sheet) ''V2'' = Some [None, Some 9, Some 8, Some 7]
   \<and> main_addition_loop (demo_library [])
        (demo_args_addition ''data.xlsx'' (Some [''P2'', ''P'']) (Some [''V2'', ''V'']))
        [''P2'', ''P''] [''V2'', ''V''] (pandas_interpolate demo_sheet) [0, 1] =
       emit [Print (MissingWarning ''P2'' ''V2'')]
         (main_addition_loop (demo_library [])
            (demo_args_addition ''data.xlsx'' (Some [''P2'', ''P'']) (Some [''V2'', ''V'']))
            [''P2'', ''P''] [''V2'', ''V''] (pandas_interpolate demo_sheet) [1])"
proof -
  let ?lib = "demo_library []"
  let ?a = "demo_args ''data.xlsx'' ''P2'' ''V2''"
  let ?b = "demo_args_addition ''data.xlsx'' (Some [''P2'', ''P'']) (Some [''V2'', ''V''])"
  let ?ps = "[''P2'', ''P'']"
  let ?vs = "[''V2'', ''V'']"
  let ?t = "[(''P'', demo_P), (''V'', demo_V), (''P2'', demo_P2), (''V2'', demo_V2)]"
  let ?Vr = "[Some 9, Some 8, Some 7] :: column"
  let ?P2i = "[Some 0, Some 5, Some 10, Some 20] :: column"
  have V2: "demo_V2 = None # ?Vr" by (simp add: demo_V2_def)
  have h3: "map_of demo_sheet (pressure_column ?a) = Some demo_P2
            \<and> map_of demo_sheet (volume_column ?a) = Some (None # ?Vr)"
    by (simp add: demo_sheet_def demo_args_def demo_V2_def)
  have h4: "pressures ?b = Some ?ps \<and> volumes ?b = Some ?vs \<and> length ?ps = length ?vs
            \<and> read_excel ?lib (filename_addition ?b) (?ps @ ?vs) = Inr ?t"
    by (simp add: demo_defs)
  have h5: "(0::nat) < length ?ps \<and> (0::nat) < length ?vs
            \<and> map_of (pandas_interpolate demo_sheet) (?ps ! 0) = Some ?P2i
            \<and> map_of (pandas_interpolate demo_sheet) (?vs ! 0) = Some (None # ?Vr)
            \<and> (None \<in> set ?P2i \<or> None \<in> set (None # ?Vr))"
    by (simp add: demo_defs)
  have c: "curve_fit ?lib birch_murnaghan demo_V2 demo_P2 (None, Some 1, Some 1) None
             = Inl ''array must not contain infs or NaNs''"
    by (simp add: demo_library_def stub_curve_fit_def demo_V2_def)
  have f: "filename_addition ?b = ''data.xlsx''" "interpolate ?lib = pandas_interpolate"
    "?ps ! 0 = ''P2''" "?vs ! 0 = ''V2''" "length ?ps = 2"
    by (simp_all add: demo_args_addition_def demo_library_def)
  from missing_values_handling
         [of demo_sheet ?lib ?a "''P2''" "''V2''" demo_sheet demo_P2 None ?Vr
             ?b ?ps ?vs ?t 0 ?ps ?vs "pandas_interpolate demo_sheet" ?P2i "None # ?Vr" "[1]"]
       h3 h4 h5
  show ?thesis unfolding V2 [symmetric] c f append_Cons append_Nil by blast
qed

subsection \<open>The data loader\<close>

lemma filter_names:
  assumes "S \<subseteq> set (map fst sheet)"
  shows "set (map fst (filter (\<lambda>nc. fst nc \<in> S) sheet)) = S"
  using assms by (auto simp: image_iff) 

text \<open>
  Claim C6. Let the file hold the table \<open>sheet\<close>, and let \<open>read_excel\<close> with \<open>usecols\<close>
  either return \<open>sheet\<close> restricted to the requested columns or raise, raising only when
  a requested column is not in the file. Then loading succeeds exactly when every
  requested column is in the file: in that case \<open>read_data\<close> returns the table with
  exactly the requested columns, each as it is in the file, and \<open>main\<close> goes on to the
  fits with it; otherwise \<open>main\<close> prints one error line and exits right after the read,
  before any fit. Whenever \<open>read_excel\<close> raises, the error is printed and the run exits.
\<close>

theorem data_loader:
  assumes "case read_excel lib (filename a) [pressure_column a, volume_column a] of
             Inr t \<Rightarrow> t = filter (\<lambda>nc. fst nc \<in> {pressure_column a, volume_column a}) sheet
           | Inl e \<Rightarrow> \<not> {pressure_column a, volume_column a} \<subseteq> set (map fst sheet)"
  shows "({pressure_column a, volume_column a} \<subseteq> set (map fst sheet) \<longrightarrow>
           (\<exists>t. read_data lib (filename a) [pressure_column a, volume_column a]
                   = ([ReadExcel (filename a) [pressure_column a, volume_column a]], Some t)
               \<and> t = filter (\<lambda>nc. fst nc \<in> {pressure_column a, volume_column a}) sheet
               \<and> set (map fst t) = {pressure_column a, volume_column a}
               \<and> main lib a =
                   emit [ReadExcel (filename a) [pressure_column a, volume_column a]]
                     (main_fit lib a t)))
       \<and> (\<not> {pressure_column a, volume_column a} \<subseteq> set (map fst sheet) \<longrightarrow>
           snd (main lib a) = Exited
           \<and> (\<exists>msg. fst (main lib a) =
                       [ReadExcel (filename a) [pressure_column a, volume_column a], Print msg]
                 \<and> (msg = ColumnsError (pressure_column a) (volume_column a)
                     \<or> (\<exists>e. msg = ReadError e))))
       \<and> (\<forall>e. read_excel lib (filename a) [pressure_column a, volume_column a] = Inl e \<longrightarrow>
             main lib a =
               ([ReadExcel (filename a) [pressure_column a, volume_column a],
                 Print (ReadError e)], Exited))"
proof (cases "read_excel lib (filename a) [pressure_column a, volume_column a]")
  case (Inl e)
  with assms have "\<not> {pressure_column a, volume_column a} \<subseteq> set (map fst sheet)" by simp
  with Inl show ?thesis by (simp add: main_def read_data_def)
next
  case (Inr t)
  with assms have t: "t = filter (\<lambda>nc. fst nc \<in> {pressure_column a, volume_column a}) sheet"
    by simp
  show ?thesis
  proof (cases "{pressure_column a, volume_column a} \<subseteq> set (map fst sheet)")
    case True
    from filter_names [OF True] t
    have names: "set (map fst t) = {pressure_column a, volume_column a}" by simp
    then have "{pressure_column a, volume_column a} \<subseteq> set (map fst t)" by simp
    from main_loaded [OF Inr this] Inr True t names show ?thesis
      by (simp add: read_data_def)
  next
    case False
    have "set (map fst t) \<subseteq> set (map fst sheet)" unfolding t by auto
    with False have "\<not> {pressure_column a, volume_column a} \<subseteq> set (map fst t)" by blast
    with Inr False show ?thesis by (auto simp: main_def read_data_def)
  qed
qed

theorem data_loader_witness:
  "main (demo_library []) (demo_args ''data.xlsx'' ''P'' ''V'') =
     emit [ReadExcel ''data.xlsx'' [''P'', ''V'']]
       (main_fit (demo_library []) (demo_args ''data.xlsx'' ''P'' ''V'')
          [(''P'', demo_P), (''V'', demo_V)])
   \<and> snd (main (demo_library []) (demo_args ''data.xlsx'' ''P'' ''X'')) = Exited
   \<and> fst (main (demo_library []) (demo_args ''data.xlsx'' ''P'' ''X'')) =
       [ReadExcel ''data.xlsx'' [''P'', ''X''], Print (ReadError ''Usecols do not match columns'')]"
proof -
  let ?lib = "demo_library []"
  let ?a = "demo_args ''data.xlsx'' ''P'' ''V''"
  let ?x = "demo_args ''data.xlsx'' ''P'' ''X''"
  have f: "filename ?a = ''data.xlsx''" "pressure_column ?a = ''P''" "volume_column ?a = ''V''"
    "filename ?x = ''data.xlsx''" "pressure_column ?x = ''P''" "volume_column ?x = ''X''"
    by (simp_all add: demo_args_def)
  have r1: "read_excel ?lib ''data.xlsx'' [''P'', ''V''] = Inr [(''P'', demo_P), (''V'', demo_V)]"
    by (simp add: demo_library_def pandas_read_excel_def demo_files_def demo_sheet_def)
  have r2: "read_excel ?lib ''data.xlsx'' [''P'', ''X''] = Inl ''Usecols do not match columns''"
    by (simp add: demo_library_def pandas_read_excel_def demo_files_def demo_sheet_def)
  have c1: "case read_excel ?lib (filename ?a) [pressure_column ?a, volume_column ?a] of
             Inr t \<Rightarrow> t = filter (\<lambda>nc. fst nc \<in> {pressure_column ?a, volume_column ?a}) demo_sheet
           | Inl e \<Rightarrow> \<not> {pressure_column ?a, volume_column ?a} \<subseteq> set (map fst demo_sheet)"
    unfolding f r1 by (simp add: demo_sheet_def)
  have c2: "case read_excel ?lib (filename ?x) [pressure_column ?x, volume_column ?x] of
             Inr t \<Rightarrow> t = filter (\<lambda>nc. fst nc \<in> {pressure_column ?x, volume_column ?x}) demo_sheet
           | Inl e \<Rightarrow> \<not> {pressure_column ?x, volume_column ?x} \<subseteq> set (map fst demo_sheet)"
    unfolding f r2 by (simp add: demo_sheet_def)
  have p1: "{pressure_column ?a, volume_column ?a} \<subseteq> set (map fst demo_sheet)"
    unfolding f by (simp add: demo_sheet_def)
  have p2: "\<not> {pressure_column ?x, volume_column ?x} \<subseteq> set (map fst demo_sheet)"
    unfolding f by (simp add: demo_sheet_def)
  have t1: "filter (\<lambda>nc. fst nc \<in> {''P'', ''V''}) demo_sheet = [(''P'', demo_P), (''V'', demo_V)]"
    by (simp add: demo_sheet_def)
  from data_loader [OF c1] p1
  have g1: "main ?lib ?a = emit [ReadExcel ''data.xlsx'' [''P'', ''V'']]
       (main_fit ?lib ?a [(''P'', demo_P), (''V'', demo_V)])"
    unfolding f t1 by blast
  from data_loader [OF c2] p2 r2
  have g2: "snd (main ?lib ?x) = Exited"
    and g3: "fst (main ?lib ?x) =
       [ReadExcel ''data.xlsx'' [''P'', ''X''], Print (ReadError ''Usecols do not match columns'')]"
    unfolding f by simp_all
  from g1 g2 g3 show ?thesis by blast
qed

end
